theory Spec2Isabelle
  imports Complex_Main
begin

section \<open>Credit approval: the scoring and eligibility engine of loans/services.py\<close>

text \<open>
  The development embeds the four functions of \<^verbatim>\<open>loans/services.py\<close>:
  \<^verbatim>\<open>calculate_approved_limit\<close>, \<^verbatim>\<open>calculate_monthly_installment\<close>,
  \<^verbatim>\<open>calculate_credit_score\<close> and \<^verbatim>\<open>check_loan_eligibility\<close>.

  Numbers. Python's \<^verbatim>\<open>int\<close> is \<^typ>\<open>int\<close>. The \<^verbatim>\<open>Decimal\<close> columns of the models
  and the \<^verbatim>\<open>float\<close> values computed from them are exact rationals (\<^typ>\<open>rat\<close>): the
  arithmetic of the embedding is exact, so the rounding error, overflow and NaN of IEEE
  doubles are outside the model. Every operation that can raise in Python
  (\<^verbatim>\<open>ZeroDivisionError\<close>) is a branch returning \<open>Inl\<close>.

  Clock. \<^verbatim>\<open>date.today()\<close> is read from the system clock in the source; here it is the
  explicit argument \<open>today\<close>.
\<close>

subsection \<open>Python primitives used by the source\<close>

datatype py_error = ZeroDivisionError

text \<open>
  \<^verbatim>\<open>round(x)\<close> of Python 3: the nearest integer, a tie going to the even neighbour.
\<close>

definition py_round :: "rat \<Rightarrow> int" where
  "py_round x =
     (let f = \<lfloor>x\<rfloor>; d = x - of_int f
      in if d < 1 / 2 then f
         else if 1 / 2 < d then f + 1
         else if even f then f else f + 1)"

text \<open>\<^verbatim>\<open>round(x, 2)\<close>: the same rounding at the second decimal place.\<close>

definition py_round2 :: "rat \<Rightarrow> rat" where
  "py_round2 x = of_int (py_round (x * 100)) / 100"

text \<open>\<^verbatim>\<open>int(x)\<close> on a float: truncation towards zero.\<close>

definition py_int :: "rat \<Rightarrow> int" where
  "py_int x = (if 0 \<le> x then \<lfloor>x\<rfloor> else \<lceil>x\<rceil>)"

text \<open>
  \<^verbatim>\<open>x ** n\<close> for a float \<open>x\<close> and an integer \<open>n\<close>: a negative exponent is the
  reciprocal of the positive power, and raises \<^verbatim>\<open>ZeroDivisionError\<close> on base zero.
  The power is the exact rational one. CPython raises \<^verbatim>\<open>OverflowError\<close> when the
  double overflows (\<^verbatim>\<open>1.01 ** 72000\<close>), and \<^verbatim>\<open>1 + r\<close> is \<^verbatim>\<open>1.0\<close> for a
  tiny \<open>r\<close>; neither is in this model. What is stated below about an instalment at a
  non-zero rate existing is therefore a statement of exact arithmetic; the statements
  about tenure 0 and about rate 0 do not pass through a power other than \<open>x\<^sup>0\<close>.
\<close>

definition py_pow :: "rat \<Rightarrow> int \<Rightarrow> py_error + rat" where
  "py_pow x n =
     (if 0 \<le> n then Inr (x ^ nat n)
      else if x = 0 then Inl ZeroDivisionError
      else Inr (1 / x ^ nat (- n)))"

text \<open>\<^verbatim>\<open>a / b\<close>: true division, raising on a zero divisor.\<close>

definition py_div :: "rat \<Rightarrow> rat \<Rightarrow> py_error + rat" where
  "py_div a b = (if b = 0 then Inl ZeroDivisionError else Inr (a / b))"

subsection \<open>The data model (loans/models.py)\<close>

text \<open>
  A \<^verbatim>\<open>datetime.date\<close> is a year, a month and a day; dates compare lexicographically.
\<close>

datatype date = Date (year: int) (month: int) (day: int)

definition date_le :: "date \<Rightarrow> date \<Rightarrow> bool" where
  "date_le a b =
     (year a < year b
      \<or> (year a = year b \<and> (month a < month b \<or> (month a = month b \<and> day a \<le> day b))))"

record loan =
  loan_amount :: rat
  tenure :: int
  interest_rate :: rat
  monthly_repayment :: rat
  emis_paid_on_time :: int
  start_date :: "date option"
  end_date :: "date option"

text \<open>
  The fields of \<^verbatim>\<open>Customer\<close> that the services read. \<open>loans\<close> is the reverse relation
  \<^verbatim>\<open>customer.loans\<close> (\<^verbatim>\<open>related_name='loans'\<close>): the rows of the loans table
  that belong to this customer.
\<close>

record customer =
  monthly_salary :: rat
  approved_limit :: rat
  loans :: "loan list"

text \<open>
  The query-set filters. The ORM turns \<^verbatim>\<open>filter(end_date__gte=d)\<close> into the SQL
  condition \<^verbatim>\<open>end_date >= d\<close>, and \<^verbatim>\<open>filter(start_date__year=y)\<close> into a
  condition on the year of \<^verbatim>\<open>start_date\<close>. A comparison with \<^verbatim>\<open>NULL\<close> is not true in
  SQL, so a row whose column is \<^verbatim>\<open>NULL\<close> is not selected by either filter.
\<close>

definition end_date__gte :: "date \<Rightarrow> loan \<Rightarrow> bool" where
  "end_date__gte d l = (case end_date l of None \<Rightarrow> False | Some e \<Rightarrow> date_le d e)"

definition start_date__year :: "int \<Rightarrow> loan \<Rightarrow> bool" where
  "start_date__year y l = (case start_date l of None \<Rightarrow> False | Some s \<Rightarrow> year s = y)"

subsection \<open>calculate_approved_limit\<close>

definition calculate_approved_limit :: "int \<Rightarrow> int" where
  "calculate_approved_limit monthly_salary' =
     (let raw = 36 * monthly_salary';
          rounded = py_round (of_int raw / 100000) * 100000
      in rounded)"

text \<open>
  The specification's reading of the same function: 36 times the income, rounded half-up
  to the nearest multiple of 100,000.
\<close>

definition spec_approved_limit_half_up :: "int \<Rightarrow> int" where
  "spec_approved_limit_half_up monthly_income = ((36 * monthly_income + 50000) div 100000) * 100000"

subsection \<open>calculate_monthly_installment\<close>

definition calculate_monthly_installment :: "rat \<Rightarrow> rat \<Rightarrow> int \<Rightarrow> py_error + rat" where
  "calculate_monthly_installment principal' annual_rate tenure_months =
     (if annual_rate = 0 then py_div principal' (of_int tenure_months)
      else
        let monthly_rate = annual_rate / (12 * 100)
        in case py_pow (1 + monthly_rate) tenure_months of
             Inl e \<Rightarrow> Inl e
           | Inr p \<Rightarrow>
               (case py_div (principal' * monthly_rate * p) (p - 1) of
                  Inl e \<Rightarrow> Inl e
                | Inr emi \<Rightarrow> Inr (py_round2 emi)))"

subsection \<open>calculate_credit_score\<close>

text \<open>The loans the source calls current: \<^verbatim>\<open>loans.filter(end_date__gte=date.today())\<close>.\<close>

definition current_loans :: "date \<Rightarrow> loan list \<Rightarrow> loan list" where
  "current_loans today lns = filter (end_date__gte today) lns"

text \<open>Component 1, lines 61 to 63: the share of instalments paid on time.\<close>

definition on_time_ratio :: "loan list \<Rightarrow> rat" where
  "on_time_ratio lns =
     (let total_emis = sum_list (map tenure lns);
          total_paid_on_time = sum_list (map emis_paid_on_time lns)
      in if total_emis > 0 then of_int total_paid_on_time / of_int total_emis else 0)"

text \<open>Component 2: the number of loans taken.\<close>

definition loan_count_score :: "int \<Rightarrow> rat" where
  "loan_count_score total_loans =
     (if total_loans \<le> 3 then 20
      else if total_loans \<le> 6 then 15
      else if total_loans \<le> 10 then 10
      else 5)"

text \<open>Component 3: the loans started in the current year.\<close>

definition activity_score :: "int \<Rightarrow> rat" where
  "activity_score current_year_loans =
     (if current_year_loans = 0 then 20
      else if current_year_loans \<le> 2 then 15
      else if current_year_loans \<le> 4 then 10
      else 5)"

text \<open>Component 4: the approved volume against the limit.\<close>

definition volume_score :: "loan list \<Rightarrow> rat \<Rightarrow> rat" where
  "volume_score lns limit =
     (let total_loan_volume = sum_list (map loan_amount lns);
          volume_ratio = (if limit > 0 then total_loan_volume / limit else 1)
      in if volume_ratio \<le> 1 / 2 then 25
         else if volume_ratio \<le> 1 then 20
         else if volume_ratio \<le> 2 then 10
         else 5)"

definition calculate_credit_score :: "date \<Rightarrow> customer \<Rightarrow> int" where
  "calculate_credit_score today c =
     (let lns = loans c;
          total_current_loan_amount = sum_list (map loan_amount (current_loans today lns))
      in if total_current_loan_amount > approved_limit c then 0
         else
           let total_loans = int (length lns)
           in if total_loans = 0 then 50
              else
                let on_time_score = on_time_ratio lns * 35;
                    current_year = year today;
                    current_year_loans = int (length (filter (start_date__year current_year) lns));
                    total_score = on_time_score + loan_count_score total_loans
                                  + activity_score current_year_loans
                                  + volume_score lns (approved_limit c)
                in min 100 (py_int total_score))"

subsection \<open>check_loan_eligibility\<close>

text \<open>
  The customers table is a map from the primary key to the customer;
  \<^verbatim>\<open>Customer.objects.get(id=...)\<close> raising \<^verbatim>\<open>DoesNotExist\<close> is the key being
  absent. The result is the source's 5-tuple: the customer or \<^verbatim>\<open>None\<close>, the approval,
  the requested rate, the corrected rate and the monthly instalment. A
  \<^verbatim>\<open>ZeroDivisionError\<close> raised by the instalment formula leaves the function, so the call
  as a whole is \<open>Inl\<close>.
\<close>

type_synonym eligibility = "customer option \<times> bool \<times> rat \<times> rat \<times> rat"

definition check_loan_eligibility ::
    "(int \<rightharpoonup> customer) \<Rightarrow> date \<Rightarrow> int \<Rightarrow> rat \<Rightarrow> rat \<Rightarrow> int \<Rightarrow> py_error + eligibility" where
  "check_loan_eligibility customers today customer_id loan_amount' interest_rate' tenure' =
     (case customers customer_id of
        None \<Rightarrow> Inr (None, False, interest_rate', interest_rate', 0)
      | Some c \<Rightarrow>
         (let total_current_emis = sum_list (map monthly_repayment (current_loans today (loans c)))
          in if total_current_emis > (1 / 2) * monthly_salary c then
               (case calculate_monthly_installment loan_amount' interest_rate' tenure' of
                  Inl e \<Rightarrow> Inl e
                | Inr monthly_installment \<Rightarrow>
                    Inr (Some c, False, interest_rate', interest_rate', monthly_installment))
             else
               (let credit_score = calculate_credit_score today c;
                    (approval, corrected_rate) =
                      (if credit_score > 50 then (True, interest_rate')
                       else if 30 < credit_score \<and> credit_score \<le> 50 then
                         (if interest_rate' > 12 then (True, interest_rate') else (True, 12))
                       else if 10 < credit_score \<and> credit_score \<le> 30 then
                         (if interest_rate' > 16 then (True, interest_rate') else (True, 16))
                       else (False, interest_rate'))
                in (case calculate_monthly_installment loan_amount' corrected_rate tenure' of
                      Inl e \<Rightarrow> Inl e
                    | Inr monthly_installment \<Rightarrow>
                        Inr (Some c, approval, interest_rate', corrected_rate,
                             monthly_installment)))))"

subsection \<open>The specification's notion of a current loan\<close>

text \<open>
  The specification calls a loan current when its end date is absent or not before
  today. This predicate follows the specification's words; \<open>current_loans\<close> above is
  what the source computes.
\<close>

definition spec_current_loan :: "date \<Rightarrow> loan \<Rightarrow> bool" where
  "spec_current_loan today l = (case end_date l of None \<Rightarrow> True | Some e \<Rightarrow> date_le today e)"

subsection \<open>The shape of a decided result\<close>

text \<open>
  Both return sites of \<^verbatim>\<open>check_loan_eligibility\<close> that follow a customer lookup compute
  the instalment and then return the tuple. \<open>decided\<close> names that shape for the
  statements below: the instalment at rate \<open>corrected\<close>, and the tuple around it; an
  error of the instalment formula is the error of the call.
\<close>

definition decided :: "customer \<Rightarrow> bool \<Rightarrow> rat \<Rightarrow> rat \<Rightarrow> rat \<Rightarrow> int \<Rightarrow> py_error + eligibility" where
  "decided c approval requested corrected amount t =
     (case calculate_monthly_installment amount corrected t of
        Inl e \<Rightarrow> Inl e
      | Inr monthly_installment \<Rightarrow> Inr (Some c, approval, requested, corrected, monthly_installment))"

subsection \<open>Snapshots used as concrete inputs\<close>

text \<open>
  The customers and loans of \<^verbatim>\<open>loans/tests.py\<close>, with \<^verbatim>\<open>date.today()\<close> fixed, and
  a loan as \<^verbatim>\<open>CreateLoanView\<close> stores it on approval (\<^verbatim>\<open>end_date=None\<close>).
\<close>

definition a_day :: date where
  "a_day = Date 2026 11 4"

definition john_doe :: customer where
  "john_doe = \<lparr>monthly_salary = 50000, approved_limit = 1800000, loans = []\<rparr>"

definition jane_smith :: customer where
  "jane_smith = \<lparr>monthly_salary = 80000, approved_limit = 2900000, loans = []\<rparr>"

definition loan_exceeding_limit :: loan where
  "loan_exceeding_limit =
     \<lparr>loan_amount = 2000000, tenure = 12, interest_rate = 10, monthly_repayment = 175000,
      emis_paid_on_time = 0, start_date = Some (Date 2026 11 4), end_date = Some (Date 2027 11 4)\<rparr>"

definition loan_paid_on_time :: loan where
  "loan_paid_on_time =
     \<lparr>loan_amount = 100000, tenure = 12, interest_rate = 10, monthly_repayment = 8791,
      emis_paid_on_time = 12, start_date = Some (Date 2025 9 30), end_date = Some (Date 2026 10 5)\<rparr>"

definition loan_never_paid :: loan where
  "loan_never_paid = loan_paid_on_time\<lparr>emis_paid_on_time := 0\<rparr>"

definition loan_heavy_emi :: loan where
  "loan_heavy_emi =
     \<lparr>loan_amount = 500000, tenure = 12, interest_rate = 10, monthly_repayment = 50000,
      emis_paid_on_time = 0, start_date = Some (Date 2026 11 4), end_date = Some (Date 2027 11 4)\<rparr>"

definition loan_defaulted :: loan where
  "loan_defaulted =
     \<lparr>loan_amount = 600000, tenure = 12, interest_rate = 10, monthly_repayment = 52750,
      emis_paid_on_time = 0, start_date = Some (Date 2026 1 15), end_date = Some (Date 2026 10 5)\<rparr>"

definition loan_open_ended :: loan where
  "loan_open_ended =
     \<lparr>loan_amount = 2000000, tenure = 12, interest_rate = 10, monthly_repayment = 175000,
      emis_paid_on_time = 0, start_date = Some (Date 2026 11 4), end_date = None\<rparr>"

definition customers_table :: "int \<rightharpoonup> customer" where
  "customers_table =
     [1 \<mapsto> jane_smith,
      2 \<mapsto> jane_smith\<lparr>loans := [loan_heavy_emi]\<rparr>,
      3 \<mapsto> john_doe\<lparr>loans := [loan_paid_on_time]\<rparr>,
      4 \<mapsto> john_doe\<lparr>loans := replicate 11 loan_defaulted\<rparr>,
      5 \<mapsto> john_doe\<lparr>monthly_salary := 400000, loans := [loan_exceeding_limit]\<rparr>,
      6 \<mapsto> john_doe\<lparr>loans := [loan_open_ended]\<rparr>]"

section \<open>Properties\<close>

subsection \<open>Rounding\<close>

lemma py_round_near: "\<bar>of_int (py_round q) - q\<bar> \<le> 1 / 2"
proof -
  have "of_int \<lfloor>q\<rfloor> \<le> q" and "q < of_int \<lfloor>q\<rfloor> + 1"
    by linarith+
  then show ?thesis
    by (auto simp: py_round_def Let_def)
qed

lemma py_round_tie_even:
  assumes "\<bar>of_int (py_round q) - q\<bar> = 1 / 2"
  shows "even (py_round q)"
proof -
  have fl: "of_int \<lfloor>q\<rfloor> \<le> q" "q < of_int \<lfloor>q\<rfloor> + 1"
    by linarith+
  show ?thesis
  proof (cases "q - of_int \<lfloor>q\<rfloor> = 1 / 2")
    case True
    then show ?thesis
      by (simp add: py_round_def Let_def)
  next
    case False
    with assms fl show ?thesis
      by (auto simp: py_round_def Let_def split: if_splits)
  qed
qed

subsection \<open>The approved limit\<close>

text \<open>
  C5, as stated: the approved limit is 36 times the income rounded half-up to a multiple
  of 100,000. At income 12,500 the product is 450,000, exactly half way between 400,000
  and 500,000: Python's \<^verbatim>\<open>round\<close> takes the even multiple, half-up takes the upper one.
\<close>

theorem calculate_approved_limit_not_half_up:
  "calculate_approved_limit 12500 = 400000 \<and> spec_approved_limit_half_up 12500 = 500000
   \<and> calculate_approved_limit 12500 \<noteq> spec_approved_limit_half_up 12500"
proof -
  have "calculate_approved_limit 12500 = 400000"
    by code_simp
  moreover have "spec_approved_limit_half_up 12500 = 500000"
    by (simp add: spec_approved_limit_half_up_def)
  ultimately show ?thesis by simp
qed

text \<open>
  C5, amended: for every income, the approved limit is a multiple of 100,000 nearest to
  36 times the income (at most 50,000 away), and when the product is exactly half way
  between two multiples the even multiple is taken. The limit of income 50,000 is
  1,800,000 and that of income 10,000 is 400,000.
\<close>

theorem calculate_approved_limit_half_even:
  "100000 dvd calculate_approved_limit x
   \<and> \<bar>calculate_approved_limit x - 36 * x\<bar> \<le> 50000
   \<and> (\<bar>calculate_approved_limit x - 36 * x\<bar> = 50000 \<longrightarrow>
        even (calculate_approved_limit x div 100000))
   \<and> calculate_approved_limit 50000 = 1800000
   \<and> calculate_approved_limit 10000 = 400000"
proof -
  define q :: rat where "q = of_int (36 * x) / 100000"
  have r: "calculate_approved_limit x = py_round q * 100000"
    by (simp add: calculate_approved_limit_def q_def)
  have d: "of_int (calculate_approved_limit x - 36 * x) = (of_int (py_round q) - q) * 100000"
    by (simp add: r q_def algebra_simps)
  have a: "\<bar>of_int (calculate_approved_limit x - 36 * x) :: rat\<bar>
             = \<bar>of_int (py_round q) - q\<bar> * 100000"
    unfolding d abs_mult by simp
  have multiple: "100000 dvd calculate_approved_limit x"
    by (simp add: r)
  have "\<bar>of_int (calculate_approved_limit x - 36 * x) :: rat\<bar> \<le> 50000"
    unfolding a using py_round_near [of q] by simp
  then have near: "\<bar>calculate_approved_limit x - 36 * x\<bar> \<le> 50000"
    by linarith
  have tie: "even (calculate_approved_limit x div 100000)"
    if "\<bar>calculate_approved_limit x - 36 * x\<bar> = 50000"
  proof -
    from that have "\<bar>of_int (calculate_approved_limit x - 36 * x) :: rat\<bar> = 50000"
      by linarith
    then have "\<bar>of_int (py_round q) - q\<bar> = 1 / 2"
      unfolding a by simp
    then have "even (py_round q)"
      by (rule py_round_tie_even)
    then show ?thesis
      by (simp add: r)
  qed
  have v1: "calculate_approved_limit 50000 = 1800000"
    by code_simp
  have v2: "calculate_approved_limit 10000 = 400000"
    by code_simp
  from multiple near tie v1 v2 show ?thesis by blast
qed

theorem calculate_approved_limit_half_even_witness:
  "\<bar>calculate_approved_limit 12500 - 36 * 12500\<bar> = 50000
   \<and> even (calculate_approved_limit 12500 div 100000)
   \<and> 100000 dvd calculate_approved_limit 12500"
proof -
  have v: "calculate_approved_limit 12500 = 400000"
    by code_simp
  then have h: "\<bar>calculate_approved_limit 12500 - 36 * 12500\<bar> = 50000"
    by simp
  with calculate_approved_limit_half_even [of 12500] show ?thesis
    by blast
qed

subsection \<open>The monthly instalment\<close>






subsection \<open>Which loans are current\<close>

lemma current_loans_set:
  "set (current_loans today lns)
     = {l \<in> set lns. \<exists>e. end_date l = Some e \<and> date_le today e}"
  by (auto simp: current_loans_def end_date__gte_def split: option.splits)

text \<open>
  Where every loan has an end date, the source's filter and the specification's notion
  select the same loans; they differ on the loans without an end date only.
\<close>

lemma current_loans_spec_agree:
  assumes "\<forall>l \<in> set lns. end_date l \<noteq> None"
  shows "current_loans today lns = filter (spec_current_loan today) lns"
  unfolding current_loans_def using assms
  by (intro filter_cong) (auto simp: end_date__gte_def spec_current_loan_def split: option.splits)

lemma current_loans_spec_subset:
  "set (current_loans today lns) \<subseteq> set (filter (spec_current_loan today) lns)"
  by (auto simp: current_loans_def end_date__gte_def spec_current_loan_def split: option.splits)

text \<open>
  C1: the loans treated as current, by the hard override of the score and by the burden
  check, are the customer's loans whose end date is absent or not before today.
  The source selects them with \<^verbatim>\<open>filter(end_date__gte=date.today())\<close>, which leaves
  out every loan without an end date. A loan stored by \<^verbatim>\<open>CreateLoanView\<close> has no end
  date: it is current for the specification and is not among the source's current
  loans. With such a loan of 2,000,000 (instalment 175,000) on a customer of limit
  1,800,000 and salary 50,000, the score is 45 instead of the override's 0, and a further
  loan is approved although the instalments exceed half the salary.
\<close>

theorem current_loans_drops_open_ended:
  "spec_current_loan a_day loan_open_ended
   \<and> current_loans a_day [loan_open_ended] = []
   \<and> approved_limit john_doe < loan_amount loan_open_ended
   \<and> calculate_credit_score a_day (john_doe\<lparr>loans := [loan_open_ended]\<rparr>) = 45
   \<and> (1 / 2) * monthly_salary john_doe < monthly_repayment loan_open_ended
   \<and> check_loan_eligibility customers_table a_day 6 100000 10 12
       = Inr (customers_table 6, True, 10, 12, 222122 / 25)"
proof -
  have 1: "spec_current_loan a_day loan_open_ended"
    by (simp add: spec_current_loan_def loan_open_ended_def)
  have 2: "current_loans a_day [loan_open_ended] = []"
    by (simp add: current_loans_def end_date__gte_def loan_open_ended_def)
  have 3: "approved_limit john_doe < loan_amount loan_open_ended"
    by (simp add: john_doe_def loan_open_ended_def)
  have 4: "calculate_credit_score a_day (john_doe\<lparr>loans := [loan_open_ended]\<rparr>) = 45"
    by code_simp
  have 5: "(1 / 2) * monthly_salary john_doe < monthly_repayment loan_open_ended"
    by (simp add: john_doe_def loan_open_ended_def)
  have 6: "check_loan_eligibility customers_table a_day 6 100000 10 12
             = Inr (customers_table 6, True, 10, 12, 222122 / 25)"
    by code_simp
  from 1 2 3 4 5 6 show ?thesis by blast
qed

subsection \<open>The credit score\<close>

lemma py_int_mono: "x \<le> y \<Longrightarrow> py_int x \<le> py_int y"
proof -
  assume xy: "x \<le> y"
  consider "0 \<le> x" | "x < 0" "0 \<le> y" | "y < 0" by linarith
  then show ?thesis
  proof cases
    case 1
    with xy show ?thesis by (simp add: py_int_def floor_mono)
  next
    case 2
    then have "py_int x = \<lceil>x\<rceil>" "py_int y = \<lfloor>y\<rfloor>"
      by (simp_all add: py_int_def)
    moreover from 2 have "\<lceil>x\<rceil> \<le> 0" "0 \<le> \<lfloor>y\<rfloor>"
      by (simp_all add: ceiling_le_iff)
    ultimately show ?thesis by linarith
  next
    case 3
    with xy show ?thesis by (simp add: py_int_def ceiling_mono)
  qed
qed






text \<open>
  The override as the source has it: when the amounts of the loans selected by the
  source's filter sum strictly above the approved limit, the score is 0.
\<close>

lemma hard_override_on_source_filter:
  assumes "sum_list (map loan_amount (current_loans today (loans c))) > approved_limit c"
  shows "calculate_credit_score today c = 0"
  using assms by (simp add: calculate_credit_score_def Let_def)

text \<open>
  C3: when the amounts of the customer's current loans (end date absent or not before
  today) sum strictly above the approved limit, the score is exactly 0. The source sums
  the loans of its filter only, so a current loan without an end date is not counted:
  the customer of limit 1,800,000 whose one loan of 2,000,000 has no end date has
  current loans above the limit and scores 45, from the four components, not 0.
\<close>

theorem calculate_credit_score_misses_open_ended:
  "sum_list (map loan_amount
       (filter (spec_current_loan a_day) (loans (john_doe\<lparr>loans := [loan_open_ended]\<rparr>))))
     > approved_limit (john_doe\<lparr>loans := [loan_open_ended]\<rparr>)
   \<and> calculate_credit_score a_day (john_doe\<lparr>loans := [loan_open_ended]\<rparr>) = 45
   \<and> calculate_credit_score a_day (john_doe\<lparr>loans := [loan_open_ended]\<rparr>) \<noteq> 0"
proof -
  have 1: "sum_list (map loan_amount
       (filter (spec_current_loan a_day) (loans (john_doe\<lparr>loans := [loan_open_ended]\<rparr>))))
     > approved_limit (john_doe\<lparr>loans := [loan_open_ended]\<rparr>)"
    by (simp add: spec_current_loan_def loan_open_ended_def john_doe_def)
  have 2: "calculate_credit_score a_day (john_doe\<lparr>loans := [loan_open_ended]\<rparr>) = 45"
    by code_simp
  from 1 2 show ?thesis by simp
qed



text \<open>
  C9: two customers with the same approved limit, the same number of loans, the same
  number of loans started in the current year, the same total volume, the same total of
  current loan amounts and the same total tenure: if the on-time ratio of the first (the
  instalments paid on time over the total tenure, as \<open>on_time_ratio\<close> computes it) is at
  most that of the second, so is the score.
\<close>

theorem calculate_credit_score_mono_on_time:
  assumes "approved_limit c1 = approved_limit c2"
    and "length (loans c1) = length (loans c2)"
    and "length (filter (start_date__year (year today)) (loans c1))
           = length (filter (start_date__year (year today)) (loans c2))"
    and "sum_list (map loan_amount (loans c1)) = sum_list (map loan_amount (loans c2))"
    and "sum_list (map loan_amount (current_loans today (loans c1)))
           = sum_list (map loan_amount (current_loans today (loans c2)))"
    and "sum_list (map tenure (loans c1)) = sum_list (map tenure (loans c2))"
    and "on_time_ratio (loans c1) \<le> on_time_ratio (loans c2)"
  shows "calculate_credit_score today c1 \<le> calculate_credit_score today c2"
proof -
  have v: "volume_score (loans c1) (approved_limit c1) = volume_score (loans c2) (approved_limit c2)"
    using assms(1,4) by (simp add: volume_score_def)
  let ?rest = "loan_count_score (int (length (loans c2)))
                 + activity_score (int (length (filter (start_date__year (year today)) (loans c2))))
                 + volume_score (loans c2) (approved_limit c2)"
  from assms(7)
  have "on_time_ratio (loans c1) * 35 + ?rest \<le> on_time_ratio (loans c2) * 35 + ?rest"
    by simp
  then have "py_int (on_time_ratio (loans c1) * 35 + ?rest)
               \<le> py_int (on_time_ratio (loans c2) * 35 + ?rest)"
    by (rule py_int_mono)
  then have "min 100 (py_int (on_time_ratio (loans c1) * 35 + ?rest))
               \<le> min 100 (py_int (on_time_ratio (loans c2) * 35 + ?rest))"
    by simp
  then show ?thesis
    using assms(1,2,3,5) v
    by (simp add: calculate_credit_score_def Let_def add.assoc)
qed

theorem calculate_credit_score_mono_on_time_witness:
  "on_time_ratio [loan_never_paid] = 0 \<and> on_time_ratio [loan_paid_on_time] = 1
   \<and> calculate_credit_score a_day (john_doe\<lparr>loans := [loan_never_paid]\<rparr>) = 65
   \<and> calculate_credit_score a_day (john_doe\<lparr>loans := [loan_paid_on_time]\<rparr>) = 100
   \<and> calculate_credit_score a_day (john_doe\<lparr>loans := [loan_never_paid]\<rparr>)
       \<le> calculate_credit_score a_day (john_doe\<lparr>loans := [loan_paid_on_time]\<rparr>)"
proof -
  let ?c1 = "john_doe\<lparr>loans := [loan_never_paid]\<rparr>"
  let ?c2 = "john_doe\<lparr>loans := [loan_paid_on_time]\<rparr>"
  have h1: "approved_limit ?c1 = approved_limit ?c2" by simp
  have h2: "length (loans ?c1) = length (loans ?c2)" by simp
  have h3: "length (filter (start_date__year (year a_day)) (loans ?c1))
              = length (filter (start_date__year (year a_day)) (loans ?c2))"
    by code_simp
  have h4: "sum_list (map loan_amount (loans ?c1)) = sum_list (map loan_amount (loans ?c2))"
    by (simp add: loan_never_paid_def)
  have h5: "sum_list (map loan_amount (current_loans a_day (loans ?c1)))
              = sum_list (map loan_amount (current_loans a_day (loans ?c2)))"
    by code_simp
  have h6: "sum_list (map tenure (loans ?c1)) = sum_list (map tenure (loans ?c2))"
    by (simp add: loan_never_paid_def)
  have r1: "on_time_ratio [loan_never_paid] = 0" by code_simp
  have r2: "on_time_ratio [loan_paid_on_time] = 1" by code_simp
  have h7: "on_time_ratio (loans ?c1) \<le> on_time_ratio (loans ?c2)"
    by (simp add: r1 r2)
  have s1: "calculate_credit_score a_day ?c1 = 65" by code_simp
  have s2: "calculate_credit_score a_day ?c2 = 100" by code_simp
  from calculate_credit_score_mono_on_time [OF h1 h2 h3 h4 h5 h6 h7] r1 r2 s1 s2
  show ?thesis by blast
qed

subsection \<open>The eligibility decision\<close>

text \<open>
  C7: for a customer id without a customer record the result is
  \<open>(None, False, rate, rate, 0)\<close>, whatever the amount and the tenure. For a customer
  id with a record, every result the call returns carries that customer, so the two
  cannot be confused.
\<close>

theorem check_loan_eligibility_not_found:
  "(customers cid = None \<longrightarrow>
      check_loan_eligibility customers today cid amount rate t = Inr (None, False, rate, rate, 0))
   \<and> (\<forall>c res. customers cid = Some c
         \<and> check_loan_eligibility customers today cid amount rate t = Inr res \<longrightarrow>
           fst res = Some c)"
  by (auto simp: check_loan_eligibility_def Let_def split: sum.splits if_splits prod.splits)

theorem check_loan_eligibility_not_found_witness:
  "customers_table 99999 = None
   \<and> check_loan_eligibility customers_table a_day 99999 100000 15 12 = Inr (None, False, 15, 15, 0)
   \<and> customers_table 5 = Some (john_doe\<lparr>monthly_salary := 400000, loans := [loan_exceeding_limit]\<rparr>)
   \<and> check_loan_eligibility customers_table a_day 5 100000 10 12
       = Inr (customers_table 5, False, 10, 10, 879159 / 100)
   \<and> fst (customers_table 5, False, 10 :: rat, 10 :: rat, 879159 / 100 :: rat) = customers_table 5"
proof -
  have n: "customers_table 99999 = None"
    by (simp add: customers_table_def)
  have s: "customers_table 5 = Some (john_doe\<lparr>monthly_salary := 400000, loans := [loan_exceeding_limit]\<rparr>)"
    by (simp add: customers_table_def)
  have r: "check_loan_eligibility customers_table a_day 5 100000 10 12
             = Inr (customers_table 5, False, 10, 10, 879159 / 100)"
    by code_simp
  have 1: "check_loan_eligibility customers_table a_day 99999 100000 15 12 = Inr (None, False, 15, 15, 0)"
    using check_loan_eligibility_not_found [of customers_table 99999 a_day 100000 15 12] n
    by blast
  have 2: "fst (customers_table 5, False, 10 :: rat, 10 :: rat, 879159 / 100 :: rat) = customers_table 5"
    using check_loan_eligibility_not_found [of customers_table 5 a_day 100000 10 12] s r
    by simp
  from n s r 1 2 show ?thesis by blast
qed

text \<open>
  The burden check as the source has it: when the instalments of the loans selected by
  the source's filter sum strictly above half the monthly salary, the call is decided as
  a denial at the requested rate, with the instalment of the requested rate and tenure.
  The result does not mention the credit score.
\<close>

lemma burden_denial_on_source_filter:
  assumes "customers cid = Some c"
    and "sum_list (map monthly_repayment (current_loans today (loans c)))
           > (1 / 2) * monthly_salary c"
  shows "check_loan_eligibility customers today cid amount rate t
           = decided c False rate rate amount t"
  using assms by (simp add: check_loan_eligibility_def decided_def Let_def)

text \<open>
  C4: an existing customer whose instalments on current loans (end date absent or not
  before today) sum strictly above half the monthly salary is denied, with the
  instalment at the requested rate. The source sums the instalments of its filter only,
  so a current loan without an end date is not counted: customer 6, of salary 50,000,
  whose one loan without an end date has an instalment of 175,000, is not denied; the
  call goes on to the score (45) and approves at 12 percent with instalment 8884.88.
\<close>

theorem check_loan_eligibility_misses_open_ended:
  "customers_table 6 = Some (john_doe\<lparr>loans := [loan_open_ended]\<rparr>)
   \<and> sum_list (map monthly_repayment
         (filter (spec_current_loan a_day) (loans (john_doe\<lparr>loans := [loan_open_ended]\<rparr>))))
       > (1 / 2) * monthly_salary (john_doe\<lparr>loans := [loan_open_ended]\<rparr>)
   \<and> check_loan_eligibility customers_table a_day 6 100000 10 12
       = Inr (Some (john_doe\<lparr>loans := [loan_open_ended]\<rparr>), True, 10, 12, 222122 / 25)
   \<and> check_loan_eligibility customers_table a_day 6 100000 10 12
       \<noteq> decided (john_doe\<lparr>loans := [loan_open_ended]\<rparr>) False 10 10 100000 12"
proof -
  have 1: "customers_table 6 = Some (john_doe\<lparr>loans := [loan_open_ended]\<rparr>)"
    by (simp add: customers_table_def)
  have 2: "sum_list (map monthly_repayment
         (filter (spec_current_loan a_day) (loans (john_doe\<lparr>loans := [loan_open_ended]\<rparr>))))
       > (1 / 2) * monthly_salary (john_doe\<lparr>loans := [loan_open_ended]\<rparr>)"
    by (simp add: spec_current_loan_def loan_open_ended_def john_doe_def)
  have 3: "check_loan_eligibility customers_table a_day 6 100000 10 12
       = Inr (Some (john_doe\<lparr>loans := [loan_open_ended]\<rparr>), True, 10, 12, 222122 / 25)"
    by code_simp
  have 4: "decided (john_doe\<lparr>loans := [loan_open_ended]\<rparr>) False 10 10 100000 12
       = Inr (Some (john_doe\<lparr>loans := [loan_open_ended]\<rparr>), False, 10, 10, 879159 / 100)"
    by code_simp
  from 1 2 3 4 show ?thesis by simp
qed



text \<open>
  C10: in every result the call returns (customer not found, burden denial, each
  approval tier, denial on the score) the corrected rate is at least the requested rate,
  and the third component is the requested rate as it was passed.
\<close>

theorem check_loan_eligibility_rate_not_lowered:
  assumes "check_loan_eligibility customers today cid amount rate t
             = Inr (co, approval, requested, corrected, installment)"
  shows "rate \<le> corrected \<and> requested = rate"
  using assms
  by (auto simp: check_loan_eligibility_def Let_def
           split: option.splits sum.splits if_splits prod.splits)

theorem check_loan_eligibility_rate_not_lowered_witness:
  "check_loan_eligibility customers_table a_day 4 100000 10 12
     = Inr (customers_table 4, True, 10, 16, 907309 / 100)
   \<and> (10 :: rat) \<le> 16 \<and> (10 :: rat) = 10"
proof -
  have r: "check_loan_eligibility customers_table a_day 4 100000 10 12
             = Inr (customers_table 4, True, 10, 16, 907309 / 100)"
    by code_simp
  from r check_loan_eligibility_rate_not_lowered [OF r] show ?thesis
    by blast
qed

end
